theory Spec2Isabelle
  imports Main "HOL-Library.Word"
begin

section \<open>Boeffla touchkey control: the driver as a state transformer\<close>

text \<open>
  The driver \<^verbatim>\<open>drivers/leds/boeffla_touchkey_control.c\<close> keeps three global
  \<^verbatim>\<open>int\<close> variables and one delayed work item. Each entry point is embedded as a
  function from the driver state to the driver state (paired with the C return value
  where the function returns one). C's \<^verbatim>\<open>int\<close> and \<^verbatim>\<open>unsigned int\<close> are
  \<open>32 word\<close>; \<^verbatim>\<open>size_t\<close>, \<^verbatim>\<open>ssize_t\<close> and \<^verbatim>\<open>unsigned long\<close> are
  \<open>64 word\<close>. Entry points are executed one at a time: interleavings of concurrent
  callers are outside this model.
\<close>

subsection \<open>Constants\<close>

text \<open>
  The header \<^verbatim>\<open>linux/boeffla_touchkey_control.h\<close>, which defines the mode and
  timeout macros, is not among the sources; the macros are modelled below.
\<close>

text \<open>
  Modelled from the spec: the macro \<^verbatim>\<open>MODE_TOUCHKEY_DISP\<close> of the missing header.
  Modes are the integers 0, 1, 2; the comment at the head of the C file numbers touchkey and
  display as 0.
\<close>

definition MODE_TOUCHKEY_DISP :: "32 word" where
  "MODE_TOUCHKEY_DISP = 0"

text \<open>
  Modelled from the spec: the macro \<^verbatim>\<open>MODE_TOUCHKEY_ONLY\<close> of the missing header,
  the default mode; the comment at the head of the C file numbers it 1.
\<close>

definition MODE_TOUCHKEY_ONLY :: "32 word" where
  "MODE_TOUCHKEY_ONLY = 1"

text \<open>
  Modelled from the spec: the macro \<^verbatim>\<open>MODE_OFF\<close> of the missing header; the comment
  at the head of the C file numbers it 2.
\<close>

definition MODE_OFF :: "32 word" where
  "MODE_OFF = 2"

text \<open>
  Modelled from the spec: the macro \<^verbatim>\<open>TIMEOUT_DEFAULT\<close> of the missing header. The
  default timeout is 0, the timeout being left to the ROM.
\<close>

definition TIMEOUT_DEFAULT :: "32 word" where
  "TIMEOUT_DEFAULT = 0"

text \<open>
  Modelled from the spec: the macros \<^verbatim>\<open>TIMEOUT_MIN\<close> and \<^verbatim>\<open>TIMEOUT_MAX\<close> of
  the missing header. The spec has \<open>set_timeout\<close> fail outside the union of 0..30 and
  31..30000; the C file tests one interval, from \<^verbatim>\<open>TIMEOUT_MIN\<close> to
  \<^verbatim>\<open>TIMEOUT_MAX\<close>.
\<close>

definition TIMEOUT_MIN :: "32 word" where
  "TIMEOUT_MIN = 0"

definition TIMEOUT_MAX :: "32 word" where
  "TIMEOUT_MAX = 30000"

text \<open>
  The two arguments of \<^verbatim>\<open>qpnp_boeffla_set_button_backlight\<close>. Only their being
  distinct matters here.
\<close>

datatype led = LED_OFF | LED_ON

text \<open>Kernel constants: \<^verbatim>\<open>errno-base.h\<close> and \<^verbatim>\<open>linux/fb.h\<close>.\<close>

definition EPERM :: "32 word" where
  "EPERM = 1"

definition EINVAL :: "32 word" where
  "EINVAL = 22"

definition ERANGE :: "32 word" where
  "ERANGE = 34"

definition FB_EVENT_BLANK :: "64 word" where
  "FB_EVENT_BLANK = 9"

definition FB_BLANK_UNBLANK :: "32 word" where
  "FB_BLANK_UNBLANK = 0"

subsection \<open>State\<close>

text \<open>
  Every call the driver makes into the kernel or into the LED driver is recorded, in
  program order, in \<open>calls\<close>. The argument of \<open>Schedule_delayed_work\<close> is the
  number of milliseconds the driver hands to \<^verbatim>\<open>msecs_to_jiffies\<close>.
\<close>

datatype call =
    Set_button_backlight led
  | Cancel_delayed_work
  | Schedule_delayed_work "32 word"
  | Flush_scheduled_work
  | Sysfs_remove_group
  | Fb_unregister_client

text \<open>
  \<open>led_work\<close> holds the armed deferred-off timers, each with its delay in milliseconds.
  It is a list and \<open>schedule_delayed_work\<close> always adds to it: that the list never
  holds two entries is then a property of the order of the driver's calls, not of the
  representation.
\<close>

record btkc =
  btkc_mode :: "32 word"
  btkc_timeout :: "32 word"
  touched :: "32 word"
  led_work :: "32 word list"
  calls :: "call list"

text \<open>
  The globals as the C file initialises them; \<^verbatim>\<open>touched\<close> has no initialiser and
  is zero.
\<close>

definition btkc_init :: btkc where
  "btkc_init =
     \<lparr>btkc_mode = MODE_TOUCHKEY_ONLY, btkc_timeout = TIMEOUT_DEFAULT, touched = 0,
      led_work = [], calls = []\<rparr>"

subsection \<open>The external operations\<close>

definition qpnp_boeffla_set_button_backlight :: "led \<Rightarrow> btkc \<Rightarrow> btkc" where
  "qpnp_boeffla_set_button_backlight v s = s\<lparr>calls := calls s @ [Set_button_backlight v]\<rparr>"

definition cancel_delayed_work :: "btkc \<Rightarrow> btkc" where
  "cancel_delayed_work s = s\<lparr>led_work := [], calls := calls s @ [Cancel_delayed_work]\<rparr>"

definition schedule_delayed_work :: "32 word \<Rightarrow> btkc \<Rightarrow> btkc" where
  "schedule_delayed_work ms s =
     s\<lparr>led_work := led_work s @ [ms], calls := calls s @ [Schedule_delayed_work ms]\<rparr>"

text \<open>
  A work item whose timer has expired runs at once in this model, so
  \<^verbatim>\<open>flush_scheduled_work\<close> never finds one queued: it is recorded and changes nothing
  else.
\<close>

definition flush_scheduled_work :: "btkc \<Rightarrow> btkc" where
  "flush_scheduled_work s = s\<lparr>calls := calls s @ [Flush_scheduled_work]\<rparr>"

definition sysfs_remove_group :: "btkc \<Rightarrow> btkc" where
  "sysfs_remove_group s = s\<lparr>calls := calls s @ [Sysfs_remove_group]\<rparr>"

definition fb_unregister_client :: "btkc \<Rightarrow> btkc" where
  "fb_unregister_client s = s\<lparr>calls := calls s @ [Fb_unregister_client]\<rparr>"

text \<open>
  The text written to a sysfs attribute, abstracted to what \<^verbatim>\<open>kstrtoint\<close> with base
  10 makes of it: not a decimal number, or the number it denotes. \<^verbatim>\<open>kstrtoint\<close>
  fails with \<^verbatim>\<open>-EINVAL\<close> on the first and with \<^verbatim>\<open>-ERANGE\<close> on a number that
  does not fit an \<^verbatim>\<open>int\<close>; otherwise it returns 0 and stores the number. \<open>Inl\<close>
  carries the nonzero return value, \<open>Inr\<close> the stored number.
\<close>

datatype buf = Not_a_number | Decimal int

fun kstrtoint :: "buf \<Rightarrow> 32 word + 32 word" where
  "kstrtoint Not_a_number = Inl (- EINVAL)"
| "kstrtoint (Decimal v) =
     (if - (2 ^ 31) \<le> v \<and> v < 2 ^ 31 then Inr (word_of_int v) else Inl (- ERANGE))"

subsection \<open>Internal functions\<close>

definition led_work_func :: "btkc \<Rightarrow> btkc" where
  "led_work_func s = cancel_delayed_work (qpnp_boeffla_set_button_backlight LED_OFF s)"

text \<open>
  \<open>evdata\<close> is the \<^verbatim>\<open>data\<close> pointer: \<open>None\<close> is a null pointer,
  \<open>Some None\<close> an event whose own \<^verbatim>\<open>data\<close> pointer is null, and
  \<open>Some (Some b)\<close> an event whose \<^verbatim>\<open>data\<close> points to the integer \<open>b\<close>.
\<close>

definition fb_notifier_callback ::
  "64 word \<Rightarrow> 32 word option option \<Rightarrow> btkc \<Rightarrow> 32 word \<times> btkc" where
  "fb_notifier_callback event evdata s =
     (case evdata of
        Some (Some blank) \<Rightarrow>
          if event = FB_EVENT_BLANK then
            (if blank = FB_BLANK_UNBLANK
             then (0, cancel_delayed_work (qpnp_boeffla_set_button_backlight LED_OFF s))
             else (0, s))
          else (0, s)
      | _ \<Rightarrow> (0, s))"

subsection \<open>Exported functions\<close>

definition btkc_touch_start :: "btkc \<Rightarrow> btkc" where
  "btkc_touch_start s =
     (let s1 = s\<lparr>touched := 1\<rparr> in
      if btkc_mode s1 = MODE_TOUCHKEY_DISP
      then cancel_delayed_work (qpnp_boeffla_set_button_backlight LED_ON s1)
      else s1)"

definition btkc_touch_stop :: "btkc \<Rightarrow> btkc" where
  "btkc_touch_stop s =
     (let s1 = s\<lparr>touched := 0\<rparr> in
      if btkc_mode s1 = MODE_TOUCHKEY_DISP
      then schedule_delayed_work (btkc_timeout s1) (cancel_delayed_work s1)
      else s1)"

definition btkc_touch_button :: "btkc \<Rightarrow> btkc" where
  "btkc_touch_button s =
     (if btkc_mode s = MODE_TOUCHKEY_DISP \<or>
         (btkc_mode s = MODE_TOUCHKEY_ONLY \<and> btkc_timeout s \<noteq> 0)
      then schedule_delayed_work (btkc_timeout s)
             (cancel_delayed_work (qpnp_boeffla_set_button_backlight LED_ON s))
      else s)"

definition btkc_led_set :: "32 word \<Rightarrow> btkc \<Rightarrow> 32 word \<times> btkc" where
  "btkc_led_set val s =
     (if btkc_mode s \<noteq> MODE_TOUCHKEY_ONLY \<or>
         (btkc_mode s = MODE_TOUCHKEY_ONLY \<and> btkc_timeout s \<noteq> 0)
      then (- EPERM, s)
      else (val, s))"

subsection \<open>The sysfs interface\<close>

text \<open>
  \<^verbatim>\<open>ret\<close> and \<^verbatim>\<open>val\<close> are \<^verbatim>\<open>unsigned int\<close>: the range checks compare
  unsigned (the order of \<open>32 word\<close>), and a failure of \<^verbatim>\<open>kstrtoint\<close> is returned
  as the zero-extended \<^verbatim>\<open>ret\<close>. The comparison of \<^verbatim>\<open>btkc_timeout\<close> with 30
  is one of \<^verbatim>\<open>int\<close>, so it is signed.
\<close>

definition btkc_mode_store :: "buf \<Rightarrow> 64 word \<Rightarrow> btkc \<Rightarrow> 64 word \<times> btkc" where
  "btkc_mode_store b count s =
     (case kstrtoint b of
        Inl ret \<Rightarrow> (ucast ret, s)
      | Inr val \<Rightarrow>
          if MODE_TOUCHKEY_DISP \<le> val \<and> val \<le> MODE_OFF
          then (count,
                qpnp_boeffla_set_button_backlight LED_OFF
                  (cancel_delayed_work (s\<lparr>btkc_mode := val\<rparr>)))
          else (count, s))"

definition btkc_timeout_store :: "buf \<Rightarrow> 64 word \<Rightarrow> btkc \<Rightarrow> 64 word \<times> btkc" where
  "btkc_timeout_store b count s =
     (case kstrtoint b of
        Inl ret \<Rightarrow> (ucast ret, s)
      | Inr val \<Rightarrow>
          if TIMEOUT_MIN \<le> val \<and> val \<le> TIMEOUT_MAX
          then
            (let s1 = s\<lparr>btkc_timeout := val\<rparr>;
                 s2 = (if sint (btkc_timeout s1) \<le> 30
                       then s1\<lparr>btkc_timeout := btkc_timeout s1 * 1000\<rparr>
                       else s1)
             in (count, qpnp_boeffla_set_button_backlight LED_OFF (cancel_delayed_work s2)))
          else (count, s))"

subsection \<open>Driver exit\<close>

definition btk_control_exit :: "btkc \<Rightarrow> btkc" where
  "btk_control_exit s =
     fb_unregister_client
       (flush_scheduled_work (cancel_delayed_work (sysfs_remove_group s)))"

subsection \<open>Triggers and runs\<close>

text \<open>
  The expiry of an armed timer: the work item stops being pending and its function runs.
  With nothing armed, nothing happens.
\<close>

definition led_work_expire :: "btkc \<Rightarrow> btkc" where
  "led_work_expire s =
     (case led_work s of
        [] \<Rightarrow> s
      | t # ts \<Rightarrow> led_work_func (s\<lparr>led_work := ts\<rparr>))"

datatype trigger =
    Touch_start
  | Touch_stop
  | Touch_button
  | Led_set "32 word"
  | Fb_event "64 word" "32 word option option"
  | Mode_store buf "64 word"
  | Timeout_store buf "64 word"
  | Timer_fire

fun step :: "trigger \<Rightarrow> btkc \<Rightarrow> btkc" where
  "step Touch_start s = btkc_touch_start s"
| "step Touch_stop s = btkc_touch_stop s"
| "step Touch_button s = btkc_touch_button s"
| "step (Led_set v) s = snd (btkc_led_set v s)"
| "step (Fb_event e d) s = snd (fb_notifier_callback e d s)"
| "step (Mode_store b n) s = snd (btkc_mode_store b n s)"
| "step (Timeout_store b n) s = snd (btkc_timeout_store b n s)"
| "step Timer_fire s = led_work_expire s"

definition run :: "trigger list \<Rightarrow> btkc \<Rightarrow> btkc" where
  "run ts s = fold step ts s"

text \<open>
  In a record of calls, every \<open>Schedule_delayed_work\<close> comes directly after a
  \<open>Cancel_delayed_work\<close>.
\<close>

fun cancel_first :: "call list \<Rightarrow> bool" where
  "cancel_first [] = True"
| "cancel_first (Schedule_delayed_work ms # cs) = False"
| "cancel_first (Cancel_delayed_work # Schedule_delayed_work ms # cs) = cancel_first cs"
| "cancel_first (c # cs) = cancel_first cs"

text \<open>The last command the actuator was given, if any.\<close>

fun last_backlight :: "call list \<Rightarrow> led option" where
  "last_backlight [] = None"
| "last_backlight (Set_button_backlight v # cs) =
     (case last_backlight cs of None \<Rightarrow> Some v | Some w \<Rightarrow> Some w)"
| "last_backlight (c # cs) = last_backlight cs"

text \<open>The invariant of the stored timeout as the spec words it: 0, or 1000 to 30000.\<close>

definition spec_timeout_invariant :: "btkc \<Rightarrow> bool" where
  "spec_timeout_invariant s =
     (btkc_timeout s = 0 \<or> (1000 \<le> btkc_timeout s \<and> btkc_timeout s \<le> 30000))"

text \<open>The range the C file keeps the stored timeout in: 0, or 31 to 30000.\<close>

definition timeout_in_range :: "btkc \<Rightarrow> bool" where
  "timeout_in_range s =
     (btkc_timeout s = 0 \<or> (31 \<le> btkc_timeout s \<and> btkc_timeout s \<le> 30000))"

text \<open>
  At most one timer is armed, and no \<open>Schedule_delayed_work\<close> was issued without a
  \<open>Cancel_delayed_work\<close> directly before it.
\<close>

definition one_timer :: "btkc \<Rightarrow> bool" where
  "one_timer s = (length (led_work s) \<le> 1 \<and> cancel_first (calls s))"

section \<open>Properties\<close>


subsection \<open>Auxiliary facts\<close>

lemmas btkc_consts = MODE_TOUCHKEY_DISP_def MODE_TOUCHKEY_ONLY_def MODE_OFF_def
  TIMEOUT_DEFAULT_def TIMEOUT_MIN_def TIMEOUT_MAX_def EPERM_def EINVAL_def ERANGE_def
  FB_EVENT_BLANK_def FB_BLANK_UNBLANK_def

lemmas btkc_external = qpnp_boeffla_set_button_backlight_def cancel_delayed_work_def
  schedule_delayed_work_def flush_scheduled_work_def sysfs_remove_group_def
  fb_unregister_client_def

lemmas btkc_entry = led_work_func_def fb_notifier_callback_def btkc_touch_start_def
  btkc_touch_stop_def btkc_touch_button_def btkc_led_set_def btkc_mode_store_def
  btkc_timeout_store_def btk_control_exit_def led_work_expire_def

text \<open>Reading a 32-bit word that \<^verbatim>\<open>kstrtoint\<close> stored.\<close>

lemma int_mod_2_32_neg: "- (2 ^ 31) \<le> (v::int) \<Longrightarrow> v < 0 \<Longrightarrow> v mod 2 ^ 32 = v + 2 ^ 32"
proof -
  assume a: "- (2 ^ 31) \<le> v" "v < 0"
  have "(v + 2 ^ 32) mod 2 ^ 32 = v + 2 ^ 32"
    using a by (intro mod_pos_pos_trivial) simp_all
  then show ?thesis by simp
qed

lemma int_mod_2_32_pos: "0 \<le> (v::int) \<Longrightarrow> v < 2 ^ 31 \<Longrightarrow> v mod 2 ^ 32 = v"
  by (intro mod_pos_pos_trivial) simp_all

lemma uint_word32_of_int: "uint (word_of_int v :: 32 word) = v mod 2 ^ 32"
  by (simp add: uint_word_of_int)

lemma word32_of_int_le_iff:
  assumes "- (2 ^ 31) \<le> v" "v < 2 ^ 31" "0 \<le> n" "n < 2 ^ 31"
  shows "((word_of_int v :: 32 word) \<le> word_of_int n) = (0 \<le> v \<and> v \<le> n)"
proof (cases "0 \<le> v")
  case True
  with assms show ?thesis
    by (simp only: word_le_def uint_word32_of_int int_mod_2_32_pos) simp
next
  case False
  have "v mod 2 ^ 32 = v + 2 ^ 32"
    using assms False by (intro int_mod_2_32_neg) simp_all
  moreover have "n mod 2 ^ 32 = n"
    using assms by (intro int_mod_2_32_pos) simp_all
  ultimately show ?thesis
    using False assms by (simp only: word_le_def uint_word32_of_int) simp
qed

lemma parsed_le_TIMEOUT_MAX:
  "- (2 ^ 31) \<le> v \<Longrightarrow> v < 2 ^ 31 \<Longrightarrow>
   ((word_of_int v :: 32 word) \<le> 30000) = (0 \<le> v \<and> v \<le> 30000)"
  using word32_of_int_le_iff [of v 30000] by simp

lemma parsed_le_MODE_OFF:
  "- (2 ^ 31) \<le> v \<Longrightarrow> v < 2 ^ 31 \<Longrightarrow>
   ((word_of_int v :: 32 word) \<le> 2) = (0 \<le> v \<and> v \<le> 2)"
  using word32_of_int_le_iff [of v 2] by simp

lemma sint_parsed: "0 \<le> v \<Longrightarrow> v \<le> 30000 \<Longrightarrow> sint (word_of_int v :: 32 word) = v"
  by (simp add: signed_of_int signed_take_bit_int_eq_self)

lemma uint_parsed: "0 \<le> v \<Longrightarrow> v \<le> 30000 \<Longrightarrow> uint (word_of_int v :: 32 word) = v"
  by (simp only: uint_word32_of_int) (intro int_mod_2_32_pos, simp_all)

lemma uint_parsed_seconds:
  "0 \<le> v \<Longrightarrow> v \<le> 30 \<Longrightarrow> uint (word_of_int v * 1000 :: 32 word) = v * 1000"
proof -
  assume a: "0 \<le> v" "v \<le> 30"
  have "word_of_int v * 1000 = (word_of_int (v * 1000) :: 32 word)" by simp
  moreover have "uint (word_of_int (v * 1000) :: 32 word) = v * 1000"
    using a by (intro uint_parsed) simp_all
  ultimately show ?thesis by simp
qed

text \<open>What an accepted timeout write stores, for a word within the accepted range.\<close>

lemma accepted_word:
  fixes val :: "32 word"
  assumes "val \<le> 30000"
  obtains v where "val = word_of_int v" "0 \<le> v" "v \<le> 30000"
proof
  show "val = word_of_int (uint val)" by simp
  show "0 \<le> uint val" by simp
  show "uint val \<le> 30000" using assms by (simp add: word_le_def)
qed

lemma scaled_timeout_range:
  fixes val :: "32 word"
  assumes "val \<le> 30000" "sint val \<le> 30"
  shows "val * 1000 = 0 \<or> (31 \<le> val * 1000 \<and> val * 1000 \<le> 30000)"
proof -
  from assms(1) obtain v where v: "val = word_of_int v" "0 \<le> v" "v \<le> 30000"
    by (rule accepted_word)
  with assms(2) have v30: "v \<le> 30" by (simp add: sint_parsed)
  have u: "uint (val * 1000) = v * 1000"
    using v v30 by (simp add: uint_parsed_seconds)
  show ?thesis
  proof (cases "v = 0")
    case True
    with v show ?thesis by simp
  next
    case False
    with v v30 u have "31 \<le> uint (val * 1000)" "uint (val * 1000) \<le> 30000" by simp_all
    then show ?thesis by (simp add: word_le_def)
  qed
qed

lemma unscaled_timeout_range:
  fixes val :: "32 word"
  assumes "val \<le> 30000" "\<not> sint val \<le> 30"
  shows "31 \<le> val"
proof -
  from assms(1) obtain v where v: "val = word_of_int v" "0 \<le> v" "v \<le> 30000"
    by (rule accepted_word)
  with assms(2) have "31 \<le> v" by (simp add: sint_parsed)
  with v have "31 \<le> uint val" by (simp add: uint_parsed)
  then show ?thesis by (simp add: word_le_def)
qed


subsection \<open>The permission hook\<close>

text \<open>
  Claim C2. For every requested value \<open>v\<close> and every state, the permission hook
  \<open>btkc_led_set\<close> returns \<open>v\<close> unchanged when the mode is touchkey-only and the
  timeout is 0, and returns the permission-denied value \<^verbatim>\<open>-EPERM\<close> in every other
  combination of mode and timeout. (The hook returns a C \<^verbatim>\<open>int\<close>, so the one
  request \<open>v = -EPERM\<close> reads the same on both branches.)
\<close>

theorem btkc_led_set_verdict:
  "fst (btkc_led_set v s) =
     (if btkc_mode s = MODE_TOUCHKEY_ONLY \<and> btkc_timeout s = 0 then v else - EPERM)"
  by (simp add: btkc_led_set_def)

theorem btkc_led_set_verdict_witness:
  "fst (btkc_led_set 255 btkc_init) = 255 \<and>
   fst (btkc_led_set 255 (snd (btkc_timeout_store (Decimal 3000) 5 btkc_init))) = - EPERM \<and>
   fst (btkc_led_set 255 (snd (btkc_mode_store (Decimal 0) 2 btkc_init))) = - EPERM \<and>
   fst (btkc_led_set 255 (snd (btkc_mode_store (Decimal 2) 2 btkc_init))) = - EPERM"
  using btkc_led_set_verdict [of 255 btkc_init]
    btkc_led_set_verdict [of 255 "snd (btkc_timeout_store (Decimal 3000) 5 btkc_init)"]
    btkc_led_set_verdict [of 255 "snd (btkc_mode_store (Decimal 0) 2 btkc_init)"]
    btkc_led_set_verdict [of 255 "snd (btkc_mode_store (Decimal 2) 2 btkc_init)"]
  by (simp add: btkc_init_def btkc_timeout_store_def btkc_mode_store_def btkc_external
      btkc_consts)

text \<open>
  Claim C10. The permission hook has no side effect: the state it leaves is the state it
  was given, so mode, timeout, \<open>touched\<close>, the armed timers and the record of calls
  (no actuator command, no timer operation) are untouched. Its verdict is the same in any
  two states that agree on mode and timeout; in particular it vetoes in touchkey-only mode
  with a nonzero timeout also when no timer is armed and no touch is in progress.
\<close>

theorem btkc_led_set_frame:
  "snd (btkc_led_set v s) = s \<and>
   (btkc_mode s = btkc_mode s' \<and> btkc_timeout s = btkc_timeout s' \<longrightarrow>
      fst (btkc_led_set v s) = fst (btkc_led_set v s')) \<and>
   (btkc_mode s = MODE_TOUCHKEY_ONLY \<and> btkc_timeout s \<noteq> 0 \<and> led_work s = [] \<and>
    touched s = 0 \<longrightarrow> fst (btkc_led_set v s) = - EPERM)"
  by (simp add: btkc_led_set_def)

theorem btkc_led_set_frame_witness:
  "btkc_mode (snd (btkc_timeout_store (Decimal 3000) 5 btkc_init)) = MODE_TOUCHKEY_ONLY \<and>
   btkc_timeout (snd (btkc_timeout_store (Decimal 3000) 5 btkc_init)) \<noteq> 0 \<and>
   led_work (snd (btkc_timeout_store (Decimal 3000) 5 btkc_init)) = [] \<and>
   touched (snd (btkc_timeout_store (Decimal 3000) 5 btkc_init)) = 0 \<and>
   btkc_led_set 255 (snd (btkc_timeout_store (Decimal 3000) 5 btkc_init)) =
     (- EPERM, snd (btkc_timeout_store (Decimal 3000) 5 btkc_init)) \<and>
   fst (btkc_led_set 255 (snd (btkc_timeout_store (Decimal 3000) 5 btkc_init))) =
     fst (btkc_led_set 255 (btkc_touch_start (snd (btkc_timeout_store (Decimal 3000) 5 btkc_init))))"
proof -
  let ?s = "snd (btkc_timeout_store (Decimal 3000) 5 btkc_init)"
  have h: "btkc_mode ?s = MODE_TOUCHKEY_ONLY" "btkc_timeout ?s \<noteq> 0" "led_work ?s = []"
    "touched ?s = 0"
    by (simp_all add: btkc_init_def btkc_timeout_store_def btkc_external btkc_consts)
  have k: "btkc_mode ?s = btkc_mode (btkc_touch_start ?s)"
    "btkc_timeout ?s = btkc_timeout (btkc_touch_start ?s)"
    by (simp_all add: btkc_touch_start_def btkc_external Let_def)
  note frame = btkc_led_set_frame [of 255 ?s "btkc_touch_start ?s"]
  have r1: "btkc_led_set 255 ?s = (- EPERM, ?s)"
    using frame h by (simp add: prod_eq_iff)
  have r2: "fst (btkc_led_set 255 ?s) = fst (btkc_led_set 255 (btkc_touch_start ?s))"
    using frame k by blast
  show ?thesis using h r1 r2 by blast
qed

subsection \<open>Touch events\<close>

text \<open>
  Claim C3. \<open>btkc_touch_button\<close> commands the actuator on, cancels the pending timer
  and schedules a deferred off after the stored timeout, in this order, exactly when the
  mode is touchkey-and-display, or touchkey-only with a nonzero timeout. Afterwards exactly
  one timer is armed, with the stored timeout. In every other combination of mode and
  timeout the state is unchanged: no actuator command and no timer operation.
\<close>

theorem btkc_touch_button_effect:
  "btkc_touch_button s =
     (if btkc_mode s = MODE_TOUCHKEY_DISP \<or>
         (btkc_mode s = MODE_TOUCHKEY_ONLY \<and> btkc_timeout s \<noteq> 0)
      then s\<lparr>led_work := [btkc_timeout s],
             calls := calls s @ [Set_button_backlight LED_ON, Cancel_delayed_work,
                                 Schedule_delayed_work (btkc_timeout s)]\<rparr>
      else s)"
  by (simp add: btkc_touch_button_def btkc_external)

theorem btkc_touch_button_effect_witness:
  "btkc_touch_button btkc_init = btkc_init \<and>
   btkc_touch_button (snd (btkc_mode_store (Decimal 2) 2 btkc_init)) =
     snd (btkc_mode_store (Decimal 2) 2 btkc_init) \<and>
   btkc_touch_button (snd (btkc_timeout_store (Decimal 3000) 5 btkc_init)) =
     \<lparr>btkc_mode = 1, btkc_timeout = 3000, touched = 0, led_work = [3000],
      calls = [Cancel_delayed_work, Set_button_backlight LED_OFF,
               Set_button_backlight LED_ON, Cancel_delayed_work,
               Schedule_delayed_work 3000]\<rparr>"
  using btkc_touch_button_effect [of btkc_init]
    btkc_touch_button_effect [of "snd (btkc_mode_store (Decimal 2) 2 btkc_init)"]
    btkc_touch_button_effect [of "snd (btkc_timeout_store (Decimal 3000) 5 btkc_init)"]
  by (simp add: btkc_init_def btkc_timeout_store_def btkc_mode_store_def btkc_external
      btkc_consts)

text \<open>
  Claim C8. \<open>btkc_touch_stop\<close> always sets \<open>touched\<close> to 0. In touchkey-and-display
  mode it also cancels the pending timer and schedules a deferred off after exactly the
  stored timeout, whatever its value: a stored 0 schedules an off with delay 0. In every
  other mode nothing but \<open>touched\<close> changes.
\<close>

theorem btkc_touch_stop_effect:
  "touched (btkc_touch_stop s) = 0 \<and>
   btkc_touch_stop s =
     (if btkc_mode s = MODE_TOUCHKEY_DISP
      then s\<lparr>touched := 0, led_work := [btkc_timeout s],
             calls := calls s @ [Cancel_delayed_work,
                                 Schedule_delayed_work (btkc_timeout s)]\<rparr>
      else s\<lparr>touched := 0\<rparr>)"
  by (simp add: btkc_touch_stop_def btkc_external Let_def)

theorem btkc_touch_stop_effect_witness:
  "btkc_touch_stop (btkc_touch_start btkc_init) = btkc_init \<and>
   btkc_touch_stop (btkc_touch_start (snd (btkc_mode_store (Decimal 0) 2 btkc_init))) =
     \<lparr>btkc_mode = 0, btkc_timeout = 0, touched = 0, led_work = [0],
      calls = [Cancel_delayed_work, Set_button_backlight LED_OFF,
               Set_button_backlight LED_ON, Cancel_delayed_work,
               Cancel_delayed_work, Schedule_delayed_work 0]\<rparr>"
  using btkc_touch_stop_effect [of "btkc_touch_start btkc_init"]
    btkc_touch_stop_effect [of "btkc_touch_start (snd (btkc_mode_store (Decimal 0) 2 btkc_init))"]
  by (simp add: btkc_init_def btkc_touch_start_def btkc_mode_store_def btkc_external
      btkc_consts Let_def)

subsection \<open>Display events\<close>

text \<open>
  Claim C7. In every state, the unblank event (a blank event whose data is
  \<^verbatim>\<open>FB_BLANK_UNBLANK\<close>) commands the actuator off and cancels the pending timer, so
  that a timer expiry afterwards finds nothing armed and does nothing. Every other display
  event leaves the whole state unchanged.
\<close>

theorem fb_notifier_callback_unblank:
  "fb_notifier_callback FB_EVENT_BLANK (Some (Some FB_BLANK_UNBLANK)) s =
     (0, s\<lparr>led_work := [],
           calls := calls s @ [Set_button_backlight LED_OFF, Cancel_delayed_work]\<rparr>) \<and>
   led_work_expire (snd (fb_notifier_callback FB_EVENT_BLANK (Some (Some FB_BLANK_UNBLANK)) s)) =
     snd (fb_notifier_callback FB_EVENT_BLANK (Some (Some FB_BLANK_UNBLANK)) s) \<and>
   (e \<noteq> FB_EVENT_BLANK \<or> d \<noteq> Some (Some FB_BLANK_UNBLANK) \<longrightarrow>
      fb_notifier_callback e d s = (0, s))"
  by (simp add: fb_notifier_callback_def led_work_expire_def btkc_external
      split: option.splits)

theorem fb_notifier_callback_unblank_witness:
  "fb_notifier_callback FB_EVENT_BLANK (Some (Some FB_BLANK_UNBLANK))
     (btkc_touch_button (snd (btkc_timeout_store (Decimal 3000) 5 btkc_init))) =
     (0, \<lparr>btkc_mode = 1, btkc_timeout = 3000, touched = 0, led_work = [],
      calls = [Cancel_delayed_work, Set_button_backlight LED_OFF,
               Set_button_backlight LED_ON, Cancel_delayed_work,
               Schedule_delayed_work 3000, Set_button_backlight LED_OFF,
               Cancel_delayed_work]\<rparr>) \<and>
   fb_notifier_callback FB_EVENT_BLANK (Some (Some 4))
     (btkc_touch_button (snd (btkc_timeout_store (Decimal 3000) 5 btkc_init))) =
     (0, btkc_touch_button (snd (btkc_timeout_store (Decimal 3000) 5 btkc_init)))"
  using fb_notifier_callback_unblank
    [of "btkc_touch_button (snd (btkc_timeout_store (Decimal 3000) 5 btkc_init))"
      FB_EVENT_BLANK "Some (Some 4)"]
  by (simp add: btkc_init_def btkc_timeout_store_def btkc_touch_button_def btkc_external
      btkc_consts)


subsection \<open>Configuration writes\<close>

lemma btkc_timeout_store_accepted:
  assumes "0 \<le> v" "v \<le> 30000"
  shows "btkc_timeout_store (Decimal v) n s =
           (n, s\<lparr>btkc_timeout := (if v \<le> 30 then word_of_int v * 1000 else word_of_int v),
                 led_work := [],
                 calls := calls s @ [Cancel_delayed_work, Set_button_backlight LED_OFF]\<rparr>)"
proof -
  have r: "- (2 ^ 31) \<le> v" "v < 2 ^ 31" using assms by simp_all
  have k: "kstrtoint (Decimal v) = Inr (word_of_int v)" using r by simp
  have le: "(word_of_int v :: 32 word) \<le> 30000"
    using r assms by (simp add: parsed_le_TIMEOUT_MAX)
  have sg: "sint (word_of_int v :: 32 word) = v" using assms by (rule sint_parsed)
  show ?thesis
    unfolding btkc_timeout_store_def k
    by (simp add: le sg TIMEOUT_MIN_def TIMEOUT_MAX_def Let_def btkc_external)
qed

lemma btkc_timeout_store_rejected:
  assumes "\<not> (0 \<le> v \<and> v \<le> 30000)"
  shows "snd (btkc_timeout_store (Decimal v) n s) = s"
proof (cases "- (2 ^ 31) \<le> v \<and> v < 2 ^ 31")
  case True
  then have k: "kstrtoint (Decimal v) = Inr (word_of_int v)" by simp
  have "\<not> (word_of_int v :: 32 word) \<le> 30000"
    using True assms by (simp only: parsed_le_TIMEOUT_MAX) simp
  then show ?thesis
    unfolding btkc_timeout_store_def k by (simp add: TIMEOUT_MAX_def)
next
  case False
  then have k: "kstrtoint (Decimal v) = Inl (- ERANGE)" by auto
  show ?thesis unfolding btkc_timeout_store_def k by simp
qed

lemma btkc_mode_store_rejected:
  assumes "v \<notin> {0, 1, 2}"
  shows "snd (btkc_mode_store (Decimal v) n s) = s"
proof (cases "- (2 ^ 31) \<le> v \<and> v < 2 ^ 31")
  case True
  then have k: "kstrtoint (Decimal v) = Inr (word_of_int v)" by simp
  have "\<not> (0 \<le> v \<and> v \<le> 2)" using assms by auto
  then have "\<not> (word_of_int v :: 32 word) \<le> 2"
    using True by (simp only: parsed_le_MODE_OFF) simp
  then show ?thesis
    unfolding btkc_mode_store_def k by (simp add: MODE_OFF_def)
next
  case False
  then have k: "kstrtoint (Decimal v) = Inl (- ERANGE)" by auto
  show ?thesis unfolding btkc_mode_store_def k by simp
qed

text \<open>
  Claim C5. An accepted timeout write of \<open>v\<close> in 1..30 stores \<open>v * 1000\<close>, and an
  accepted write of \<open>v\<close> in 1000..30000 stores \<open>v\<close> unchanged, so a write in seconds
  and the write of the same duration in milliseconds store the same value: writing 5 and
  writing 5000 both store 5000.
\<close>

theorem btkc_timeout_store_scales:
  "(1 \<le> v \<and> v \<le> 30 \<longrightarrow>
      uint (btkc_timeout (snd (btkc_timeout_store (Decimal v) n s))) = v * 1000 \<and>
      btkc_timeout (snd (btkc_timeout_store (Decimal v) n s)) =
        btkc_timeout (snd (btkc_timeout_store (Decimal (v * 1000)) n' s'))) \<and>
   (1000 \<le> v \<and> v \<le> 30000 \<longrightarrow>
      uint (btkc_timeout (snd (btkc_timeout_store (Decimal v) n s))) = v)"
proof (intro conjI impI)
  assume a: "1 \<le> v \<and> v \<le> 30"
  then show "uint (btkc_timeout (snd (btkc_timeout_store (Decimal v) n s))) = v * 1000"
    by (simp add: btkc_timeout_store_accepted uint_parsed_seconds)
  from a have "0 \<le> v * 1000" "v * 1000 \<le> 30000" "\<not> v * 1000 \<le> 30" by simp_all
  then have "btkc_timeout (snd (btkc_timeout_store (Decimal (v * 1000)) n' s')) =
      word_of_int (v * 1000)"
    by (simp add: btkc_timeout_store_accepted)
  moreover from a have "btkc_timeout (snd (btkc_timeout_store (Decimal v) n s)) =
      word_of_int v * 1000"
    by (simp add: btkc_timeout_store_accepted)
  ultimately show "btkc_timeout (snd (btkc_timeout_store (Decimal v) n s)) =
        btkc_timeout (snd (btkc_timeout_store (Decimal (v * 1000)) n' s'))"
    by simp
next
  assume a: "1000 \<le> v \<and> v \<le> 30000"
  then show "uint (btkc_timeout (snd (btkc_timeout_store (Decimal v) n s))) = v"
    by (simp add: btkc_timeout_store_accepted uint_parsed)
qed

theorem btkc_timeout_store_scales_witness:
  "btkc_timeout (snd (btkc_timeout_store (Decimal 5) 2 btkc_init)) = 5000 \<and>
   btkc_timeout (snd (btkc_timeout_store (Decimal 5000) 5 btkc_init)) = 5000 \<and>
   uint (btkc_timeout (snd (btkc_timeout_store (Decimal 5) 2 btkc_init))) = 5 * 1000 \<and>
   uint (btkc_timeout (snd (btkc_timeout_store (Decimal 5000) 5 btkc_init))) = 5000"
proof -
  have a: "1 \<le> (5::int) \<and> (5::int) \<le> 30"
    and b: "1000 \<le> (5000::int) \<and> (5000::int) \<le> 30000"
    by simp_all
  from btkc_timeout_store_scales [of 5 2 btkc_init 5 btkc_init] a
  have c: "uint (btkc_timeout (snd (btkc_timeout_store (Decimal 5) 2 btkc_init))) = 5 * 1000"
    by blast
  from btkc_timeout_store_scales [of 5000 5 btkc_init 5 btkc_init] b
  have d: "uint (btkc_timeout (snd (btkc_timeout_store (Decimal 5000) 5 btkc_init))) = 5000"
    by blast
  have e: "btkc_timeout (snd (btkc_timeout_store (Decimal 5) 2 btkc_init)) = 5000"
    "btkc_timeout (snd (btkc_timeout_store (Decimal 5000) 5 btkc_init)) = 5000"
    by (simp_all add: btkc_init_def btkc_timeout_store_def btkc_external btkc_consts)
  from c d e show ?thesis by blast
qed

text \<open>
  Claim C6, as amended. A rejected configuration write changes nothing: for every \<open>v\<close>
  outside 0, 1, 2 a mode write, and for every \<open>v\<close> outside 0..30000 a timeout write,
  returns the state it was given, with the stored value, the armed timers and the record of
  calls unchanged; so does a write that is not a number. (Timeout writes of 31..999 are
  accepted, as the counterexample below shows.)
\<close>

theorem rejected_writes_change_nothing:
  "(v \<notin> {0, 1, 2} \<longrightarrow> snd (btkc_mode_store (Decimal v) n s) = s) \<and>
   (\<not> (0 \<le> v \<and> v \<le> 30000) \<longrightarrow> snd (btkc_timeout_store (Decimal v) n s) = s) \<and>
   snd (btkc_mode_store Not_a_number n s) = s \<and>
   snd (btkc_timeout_store Not_a_number n s) = s"
  using btkc_mode_store_rejected [of v n s] btkc_timeout_store_rejected [of v n s]
  by (simp add: btkc_mode_store_def btkc_timeout_store_def)

theorem rejected_writes_change_nothing_witness:
  "snd (btkc_mode_store (Decimal 3) 2 (btkc_touch_button (snd (btkc_timeout_store (Decimal 3000) 5 btkc_init)))) =
     btkc_touch_button (snd (btkc_timeout_store (Decimal 3000) 5 btkc_init)) \<and>
   snd (btkc_timeout_store (Decimal 30001) 6 (btkc_touch_button (snd (btkc_timeout_store (Decimal 3000) 5 btkc_init)))) =
     btkc_touch_button (snd (btkc_timeout_store (Decimal 3000) 5 btkc_init)) \<and>
   snd (btkc_mode_store (Decimal (- 1)) 3 btkc_init) = btkc_init \<and>
   snd (btkc_timeout_store (Decimal (- 1)) 3 btkc_init) = btkc_init"
  using rejected_writes_change_nothing
    [of 3 2 "btkc_touch_button (snd (btkc_timeout_store (Decimal 3000) 5 btkc_init))"]
    rejected_writes_change_nothing
    [of 30001 6 "btkc_touch_button (snd (btkc_timeout_store (Decimal 3000) 5 btkc_init))"]
    rejected_writes_change_nothing [of "- 1" 3 btkc_init]
  by simp

text \<open>
  Claim C6 as stated fails: 500 is none of 0, 1..30 and 1000..30000, yet writing it
  replaces the stored timeout and issues a cancel and an actuator off.
\<close>

theorem timeout_store_500_is_accepted:
  "\<not> ((500::int) = 0 \<or> (1 \<le> (500::int) \<and> (500::int) \<le> 30) \<or>
       (1000 \<le> (500::int) \<and> (500::int) \<le> 30000)) \<and>
   btkc_timeout btkc_init = 0 \<and>
   btkc_timeout (snd (btkc_timeout_store (Decimal 500) 4 btkc_init)) = 500 \<and>
   calls (snd (btkc_timeout_store (Decimal 500) 4 btkc_init)) =
     [Cancel_delayed_work, Set_button_backlight LED_OFF]"
  by (simp add: btkc_init_def btkc_timeout_store_def btkc_external btkc_consts)


subsection \<open>Runs of triggers\<close>

lemma btkc_timeout_unchanged:
  "btkc_timeout (btkc_touch_start s) = btkc_timeout s"
  "btkc_timeout (btkc_touch_stop s) = btkc_timeout s"
  "btkc_timeout (btkc_touch_button s) = btkc_timeout s"
  "btkc_timeout (snd (btkc_led_set v s)) = btkc_timeout s"
  "btkc_timeout (snd (fb_notifier_callback e d s)) = btkc_timeout s"
  "btkc_timeout (snd (btkc_mode_store b n s)) = btkc_timeout s"
  "btkc_timeout (led_work_expire s) = btkc_timeout s"
  by (simp_all add: btkc_entry btkc_external Let_def split: option.splits sum.splits list.splits)

lemma btkc_timeout_store_in_range:
  assumes "timeout_in_range s"
  shows "timeout_in_range (snd (btkc_timeout_store b n s))"
proof (cases "kstrtoint b")
  case (Inl ret)
  with assms show ?thesis by (simp add: btkc_timeout_store_def)
next
  case (Inr val)
  show ?thesis
  proof (cases "val \<le> 30000")
    case False
    with Inr assms show ?thesis by (simp add: btkc_timeout_store_def TIMEOUT_MAX_def)
  next
    case True
    show ?thesis
    proof (cases "sint val \<le> 30")
      case small: True
      from scaled_timeout_range [OF True small] Inr True small show ?thesis
        by (simp add: btkc_timeout_store_def TIMEOUT_MIN_def TIMEOUT_MAX_def Let_def
            btkc_external timeout_in_range_def)
    next
      case large: False
      from unscaled_timeout_range [OF True large] Inr True large show ?thesis
        by (simp add: btkc_timeout_store_def TIMEOUT_MIN_def TIMEOUT_MAX_def Let_def
            btkc_external timeout_in_range_def)
    qed
  qed
qed

lemma step_timeout_in_range: "timeout_in_range s \<Longrightarrow> timeout_in_range (step t s)"
  by (cases t) (simp_all add: btkc_timeout_store_in_range,
      simp_all add: timeout_in_range_def btkc_timeout_unchanged)

lemma run_timeout_in_range: "timeout_in_range s \<Longrightarrow> timeout_in_range (run ts s)"
  unfolding run_def by (induction ts arbitrary: s) (simp_all add: step_timeout_in_range)

text \<open>
  Claim C4, as amended. From the initial state, after every sequence of triggers (timeout
  writes among them, rejected or accepted), the stored timeout is 0 or lies within
  31..30000: it is never in 1..30 and never above 30000.
\<close>

theorem btkc_timeout_range:
  "btkc_timeout (run ts btkc_init) = 0 \<or>
   (31 \<le> btkc_timeout (run ts btkc_init) \<and> btkc_timeout (run ts btkc_init) \<le> 30000)"
proof -
  have "timeout_in_range btkc_init"
    by (simp add: timeout_in_range_def btkc_init_def TIMEOUT_DEFAULT_def)
  then have "timeout_in_range (run ts btkc_init)" by (rule run_timeout_in_range)
  then show ?thesis by (simp add: timeout_in_range_def)
qed

theorem btkc_timeout_range_witness:
  "btkc_timeout (run [Timeout_store (Decimal 500) 4, Touch_button, Timeout_store (Decimal 40000) 6]
     btkc_init) = 500 \<and> (31::32 word) \<le> 500 \<and> (500::32 word) \<le> 30000"
  using btkc_timeout_range
    [of "[Timeout_store (Decimal 500) 4, Touch_button, Timeout_store (Decimal 40000) 6]"]
  by (simp add: run_def btkc_init_def btkc_timeout_store_def btkc_touch_button_def
      btkc_external btkc_consts)

text \<open>
  Claim C4 as stated fails: after the single write of 500 the stored timeout is 500, which
  is neither 0 nor within 1000..30000.
\<close>

theorem timeout_500_breaks_spec_invariant:
  "\<not> spec_timeout_invariant (run [Timeout_store (Decimal 500) 4] btkc_init)"
  by (simp add: spec_timeout_invariant_def run_def btkc_init_def btkc_timeout_store_def
      btkc_external btkc_consts)

subsection \<open>At most one armed timer\<close>

lemma cancel_first_append:
  "cancel_first xs \<Longrightarrow> cancel_first ys \<Longrightarrow> cancel_first (xs @ ys)"
  by (induction xs rule: cancel_first.induct)
    (simp_all, cases ys rule: cancel_first.cases, simp_all)

lemma one_timer_touch_start: "one_timer s \<Longrightarrow> one_timer (btkc_touch_start s)"
  by (simp add: one_timer_def btkc_touch_start_def btkc_external Let_def cancel_first_append)

lemma one_timer_touch_stop: "one_timer s \<Longrightarrow> one_timer (btkc_touch_stop s)"
  by (simp add: one_timer_def btkc_touch_stop_def btkc_external Let_def cancel_first_append)

lemma one_timer_touch_button: "one_timer s \<Longrightarrow> one_timer (btkc_touch_button s)"
  by (simp add: one_timer_def btkc_touch_button_def btkc_external cancel_first_append)

lemma one_timer_led_set: "one_timer s \<Longrightarrow> one_timer (snd (btkc_led_set v s))"
  by (simp add: btkc_led_set_def)

lemma one_timer_fb_notifier_callback:
  "one_timer s \<Longrightarrow> one_timer (snd (fb_notifier_callback e d s))"
  by (simp add: one_timer_def fb_notifier_callback_def btkc_external cancel_first_append
      split: option.splits)

lemma one_timer_mode_store: "one_timer s \<Longrightarrow> one_timer (snd (btkc_mode_store b n s))"
  by (simp add: one_timer_def btkc_mode_store_def btkc_external cancel_first_append
      split: sum.splits)

lemma one_timer_timeout_store: "one_timer s \<Longrightarrow> one_timer (snd (btkc_timeout_store b n s))"
  by (simp add: one_timer_def btkc_timeout_store_def btkc_external Let_def cancel_first_append
      split: sum.splits)

lemma one_timer_expire: "one_timer s \<Longrightarrow> one_timer (led_work_expire s)"
  by (simp add: one_timer_def led_work_expire_def led_work_func_def btkc_external
      cancel_first_append split: list.splits)

lemma one_timer_step: "one_timer s \<Longrightarrow> one_timer (step t s)"
  by (cases t)
    (simp_all add: one_timer_touch_start one_timer_touch_stop one_timer_touch_button
      one_timer_led_set one_timer_fb_notifier_callback one_timer_mode_store
      one_timer_timeout_store one_timer_expire)

lemma one_timer_run: "one_timer s \<Longrightarrow> one_timer (run ts s)"
  unfolding run_def by (induction ts arbitrary: s) (simp_all add: one_timer_step)

text \<open>
  Claim C1. After every sequence of triggers (touch start, touch stop, touch button, the
  permission hook, display events, mode and timeout writes, timer expiry) from the initial
  state, at most one deferred-off timer is armed, and every scheduling of a deferred off
  was directly preceded by a cancel.
\<close>

theorem at_most_one_led_work:
  "length (led_work (run ts btkc_init)) \<le> 1 \<and> cancel_first (calls (run ts btkc_init))"
proof -
  have "one_timer btkc_init" by (simp add: one_timer_def btkc_init_def)
  then have "one_timer (run ts btkc_init)" by (rule one_timer_run)
  then show ?thesis by (simp add: one_timer_def)
qed

theorem at_most_one_led_work_witness:
  "led_work (run [Mode_store (Decimal 0) 2, Timeout_store (Decimal 2) 2, Touch_button,
                  Touch_stop, Touch_stop] btkc_init) = [2000] \<and>
   length (led_work (run [Mode_store (Decimal 0) 2, Timeout_store (Decimal 2) 2, Touch_button,
                          Touch_stop, Touch_stop] btkc_init)) \<le> 1 \<and>
   cancel_first (calls (run [Mode_store (Decimal 0) 2, Timeout_store (Decimal 2) 2,
                             Touch_button, Touch_stop, Touch_stop] btkc_init))"
proof -
  let ?ts = "[Mode_store (Decimal 0) 2, Timeout_store (Decimal 2) 2, Touch_button,
              Touch_stop, Touch_stop]"
  have "led_work (run ?ts btkc_init) = [2000]"
    by (simp add: run_def btkc_init_def btkc_mode_store_def btkc_timeout_store_def
        btkc_touch_button_def btkc_touch_stop_def btkc_external btkc_consts Let_def)
  with at_most_one_led_work [of ?ts] show ?thesis by blast
qed

subsection \<open>Driver exit\<close>

lemma last_backlight_append:
  "last_backlight (xs @ ys) =
     (case last_backlight ys of None \<Rightarrow> last_backlight xs | Some w \<Rightarrow> Some w)"
  by (induction xs rule: last_backlight.induct) (simp_all split: option.splits)

text \<open>
  Claim C9, as amended. From every state, the exit routine cancels the pending timer before
  it unregisters from the display notifier, and it issues no actuator command: the last
  command the actuator was given stays what it was.
\<close>

theorem btk_control_exit_effect:
  "btk_control_exit s =
     s\<lparr>led_work := [],
       calls := calls s @ [Sysfs_remove_group, Cancel_delayed_work, Flush_scheduled_work,
                           Fb_unregister_client]\<rparr> \<and>
   last_backlight (calls (btk_control_exit s)) = last_backlight (calls s)"
  by (simp add: btk_control_exit_def btkc_external last_backlight_append)

theorem btk_control_exit_effect_witness:
  "btk_control_exit (run [Timeout_store (Decimal 3000) 5, Touch_button] btkc_init) =
     \<lparr>btkc_mode = 1, btkc_timeout = 3000, touched = 0, led_work = [],
      calls = [Cancel_delayed_work, Set_button_backlight LED_OFF,
               Set_button_backlight LED_ON, Cancel_delayed_work,
               Schedule_delayed_work 3000, Sysfs_remove_group, Cancel_delayed_work,
               Flush_scheduled_work, Fb_unregister_client]\<rparr>"
  using btk_control_exit_effect [of "run [Timeout_store (Decimal 3000) 5, Touch_button] btkc_init"]
  by (simp add: run_def btkc_init_def btkc_timeout_store_def btkc_touch_button_def
      btkc_external btkc_consts)

text \<open>
  Claim C9 as stated fails: with the LED switched on by a button press and its timer armed,
  the exit routine issues no actuator off, and the last command the actuator was given
  remains on.
\<close>

theorem btk_control_exit_leaves_led_on:
  "led_work (run [Timeout_store (Decimal 3000) 5, Touch_button] btkc_init) = [3000] \<and>
   Set_button_backlight LED_OFF \<notin>
     set (drop (length (calls (run [Timeout_store (Decimal 3000) 5, Touch_button] btkc_init)))
           (calls (btk_control_exit
              (run [Timeout_store (Decimal 3000) 5, Touch_button] btkc_init)))) \<and>
   last_backlight
     (calls (btk_control_exit (run [Timeout_store (Decimal 3000) 5, Touch_button] btkc_init))) =
     Some LED_ON"
  by (simp add: btk_control_exit_def run_def btkc_init_def btkc_timeout_store_def
      btkc_touch_button_def btkc_external btkc_consts)

end
